theory Spec2Isabelle
  imports Complex_Main "HOL-Library.Log_Nat"
begin

section \<open>Consumable items of the roguelike: data model\<close>

text \<open>
  The verified file is \<^verbatim>\<open>components/consumable.py\<close>: the class \<^verbatim>\<open>Consumable\<close> with
  its method \<^verbatim>\<open>consume\<close>, and the four consumables with their method \<^verbatim>\<open>activate\<close>.
  The objects they work on (actors, items, inventories) are mutable and compared by
  identity, so they live in an explicit store: an object is an identifier, its fields
  are read through the store, and an assignment to a field updates the store. The
  classes of these objects belong to the engine around the file; their fields are
  modelled as far as the file reads or writes them.
\<close>

type_synonym actor_id = nat
type_synonym item_id = nat
type_synonym inventory_id = nat

text \<open>
  Modelled from the spec: the AI classes are not in the verified file. An AI is a
  behaviour-selection component that can be swapped at runtime. The only AI that the
  consumables build is \<^verbatim>\<open>ConfusedEnemy(entity, previous_ai, turns_remaining)\<close>, with the
  three keyword arguments of the call as fields; every other AI object is opaque.
\<close>

datatype ai =
    OtherAI nat
  | ConfusedEnemy (ai_entity: actor_id) (previous_ai: "ai option") (turns_remaining: int)

text \<open>
  Modelled from the spec: the class \<^verbatim>\<open>Actor\<close> is not in the verified file. An actor has
  the fields that the consumables read or write: its position \<^verbatim>\<open>x\<close>, \<^verbatim>\<open>y\<close>, its
  \<^verbatim>\<open>name\<close>, its optional \<^verbatim>\<open>ai\<close>, and the hit points and maximum hit points of its
  \<^verbatim>\<open>fighter\<close>, the combat-stat component.
\<close>

record actor =
  actor_x :: int
  actor_y :: int
  actor_name :: string
  ai :: "ai option"
  hp :: int
  max_hp :: int

text \<open>
  Modelled from the spec: the class \<^verbatim>\<open>Item\<close> is not in the verified file. The parent of
  an item is what \<^verbatim>\<open>Consumable.consume\<close> tests with \<^verbatim>\<open>isinstance\<close>: an inventory, the
  game map (an item lying on the floor), or nothing.
\<close>

datatype item_parent =
    ParentInventory inventory_id
  | ParentGameMap
  | ParentNone

text \<open>
  The messages handed to \<^verbatim>\<open>message_log.add_message\<close>, one constructor per format
  string of the file, holding the interpolated values:
  \<^item> \<open>ConfusedMsg name\<close>: the target \<open>name\<close> starts to stumble;
  \<^item> \<open>HealedMsg item amount_recovered\<close>: the potion \<open>item\<close> gave back \<open>amount_recovered\<close> HP;
  \<^item> \<open>ExplosionMsg name damage\<close>: \<open>name\<close> is caught in the explosion;
  \<^item> \<open>LightningMsg name damage\<close>: lightning strikes \<open>name\<close>.
\<close>

datatype message =
    ConfusedMsg string
  | HealedMsg string int
  | ExplosionMsg string int
  | LightningMsg string int

text \<open>
  The exceptions that can leave \<^verbatim>\<open>activate\<close>: \<^verbatim>\<open>Impossible\<close> with its text,
  \<^verbatim>\<open>NotImplementedError\<close> of the base class, the \<^verbatim>\<open>ValueError\<close> of \<^verbatim>\<open>list.remove\<close> on
  an absent element, and the \<^verbatim>\<open>OverflowError\<close> of adding a float to an integer that is
  too large for a float.
\<close>

datatype error =
    Impossible string
  | NotImplementedError
  | ValueError
  | OverflowError

text \<open>
  Modelled from the spec: the game map, the message log and the inventory class are
  not in the verified file (the spec calls them the larger engine: map grid, message
  log, fighter component). The record is the state that a consumable reaches through
  \<^verbatim>\<open>self.engine\<close> and \<^verbatim>\<open>self.parent\<close>:
  \<^item> \<open>actors\<close> is the sequence that iterating \<^verbatim>\<open>game_map.actors\<close> yields, in iteration
    order;
  \<^item> \<open>visible\<close> is the visibility grid of the map, read at a coordinate pair; the file
    reads it at the target of an action and at the position of an actor, locations that
    the engine keeps on the grid;
  \<^item> \<open>actor_of\<close>, \<open>item_parent\<close> and \<open>item_name\<close> are the store of the actors and of the
    fields \<^verbatim>\<open>parent\<close> and \<^verbatim>\<open>name\<close> of the items;
  \<^item> \<open>inventory_items\<close> is the Python list \<^verbatim>\<open>Inventory.items\<close> of each inventory;
  \<^item> \<open>message_log\<close> is the list of the messages added so far.

  There is one game map: \<^verbatim>\<open>self.engine.game_map\<close> and \<^verbatim>\<open>self.parent.gamemap\<close> are the
  same object.
\<close>

record engine =
  actors :: "actor_id list"
  visible :: "int \<times> int \<Rightarrow> bool"
  actor_of :: "actor_id \<Rightarrow> actor"
  item_parent :: "item_id \<Rightarrow> item_parent"
  item_name :: "item_id \<Rightarrow> string"
  inventory_items :: "inventory_id \<Rightarrow> item_id list"
  message_log :: "message list"

text \<open>
  The methods of \<^verbatim>\<open>Entity\<close> and \<^verbatim>\<open>Fighter\<close> that the consumables call are not in the
  verified file either. They are parameters of the model, so that what is proved of
  \<^verbatim>\<open>activate\<close> holds whatever these methods compute: \<open>distance a x y\<close> is
  \<^verbatim>\<open>a.distance(x, y)\<close>, a float read here as a real number; \<open>take_damage n a\<close> is the
  actor after \<^verbatim>\<open>a.fighter.take_damage(n)\<close>; \<open>heal n a\<close> is the value returned by
  \<^verbatim>\<open>a.fighter.heal(n)\<close> and the actor after it. Both fighter methods act on the actor
  they are called on.
\<close>

record ops =
  distance :: "actor \<Rightarrow> int \<Rightarrow> int \<Rightarrow> real"
  take_damage :: "int \<Rightarrow> actor \<Rightarrow> actor"
  heal :: "int \<Rightarrow> actor \<Rightarrow> int \<times> actor"

text \<open>
  Modelled from the spec: the class \<^verbatim>\<open>ItemAction\<close> is not in the verified file. The
  context of an activation is \<^verbatim>\<open>actions.ItemAction(entity, item, target_xy)\<close>, as the
  file builds it: the consuming actor, the item and the target location.
\<close>

record item_action =
  entity :: actor_id
  item :: item_id
  target_xy :: "int \<times> int"

text \<open>
  A consumable component: its class, its \<^verbatim>\<open>parent\<close> item and the constructor
  arguments of the class.
\<close>

datatype consumable =
    Consumable item_id
  | ConfusionConsumable item_id int
  | HealingConsumable item_id int
  | FireballDamageConsumable item_id int int
  | LightningDamageConsumable item_id int int

fun parent :: "consumable \<Rightarrow> item_id" where
  "parent (Consumable p) = p"
| "parent (ConfusionConsumable p number_of_turns) = p"
| "parent (HealingConsumable p amount) = p"
| "parent (FireballDamageConsumable p damage radius) = p"
| "parent (LightningDamageConsumable p damage maximum_range) = p"

text \<open>
  A call either returns, leaving a state (\<open>Inr\<close>), or raises, leaving the exception and
  the state at the moment of the raise (\<open>Inl\<close>).
\<close>

type_synonym result = "(error \<times> engine) + engine"

definition final :: "result \<Rightarrow> engine" where
  "final r = (case r of Inl (e, s) \<Rightarrow> s | Inr s \<Rightarrow> s)"

definition raises_Impossible :: "result \<Rightarrow> bool" where
  "raises_Impossible r = (case r of Inl (Impossible m, s) \<Rightarrow> True | _ \<Rightarrow> False)"

definition raised :: "result \<Rightarrow> error option" where
  "raised r = (case r of Inl (e, s) \<Rightarrow> Some e | Inr s \<Rightarrow> None)"

definition add_message :: "message \<Rightarrow> engine \<Rightarrow> engine" where
  "add_message m s = s\<lparr>message_log := message_log s @ [m]\<rparr>"

definition set_actor :: "actor_id \<Rightarrow> actor \<Rightarrow> engine \<Rightarrow> engine" where
  "set_actor i a s = s\<lparr>actor_of := (actor_of s)(i := a)\<rparr>"

section \<open>The code\<close>

text \<open>
  \<^verbatim>\<open>Consumable.consume\<close>: \<^verbatim>\<open>inventory.items.remove(entity)\<close> when the item's parent is an
  inventory, nothing otherwise. \<^verbatim>\<open>list.remove\<close> deletes the first occurrence and raises
  \<^verbatim>\<open>ValueError\<close> when there is none.
\<close>

definition consume :: "consumable \<Rightarrow> engine \<Rightarrow> result" where
  "consume self s =
     (let entity = parent self in
      case item_parent s entity of
        ParentInventory inventory \<Rightarrow>
          if entity \<in> set (inventory_items s inventory)
          then Inr (s\<lparr>inventory_items :=
                 (inventory_items s)(inventory := remove1 entity (inventory_items s inventory))\<rparr>)
          else Inl (ValueError, s)
      | _ \<Rightarrow> Inr s)"

text \<open>
  Modelled from the spec: the map's lookup of the actor at a location is not in the
  verified file; the actor that stands at a location is the first actor of the map
  whose position is that location, if there is one.
\<close>

definition get_actor_at_location :: "engine \<Rightarrow> int \<Rightarrow> int \<Rightarrow> actor_id option" where
  "get_actor_at_location s x y =
     find (\<lambda>a. actor_x (actor_of s a) = x \<and> actor_y (actor_of s a) = y) (actors s)"

text \<open>
  Modelled from the spec: the property \<^verbatim>\<open>ItemAction.target_actor\<close> is not in the
  verified file; the target actor is the actor that stands at the target location.
\<close>

definition target_actor :: "item_action \<Rightarrow> engine \<Rightarrow> actor_id option" where
  "target_actor action s =
     get_actor_at_location s (fst (target_xy action)) (snd (target_xy action))"

text \<open>\<^verbatim>\<open>ConfusionConsumable.activate\<close>.\<close>

definition ConfusionConsumable_activate ::
  "consumable \<Rightarrow> int \<Rightarrow> item_action \<Rightarrow> engine \<Rightarrow> result" where
  "ConfusionConsumable_activate self number_of_turns action s =
     (let consumer = entity action;
          target = target_actor action s
      in if \<not> visible s (target_xy action)
         then Inl (Impossible ''Vous ne pouvez pas cibler un endroit hors du champ de vision.'', s)
         else case target of
           None \<Rightarrow> Inl (Impossible ''Vous devez selectionner un ennemi.'', s)
         | Some t \<Rightarrow>
             if t = consumer
             then Inl (Impossible ''Vous ne pouvez pas vous rendre vous-meme confus!'', s)
             else
               let s1 = add_message (ConfusedMsg (actor_name (actor_of s t))) s;
                   s2 = set_actor t
                     ((actor_of s1 t)\<lparr>ai :=
                        Some (ConfusedEnemy t (ai (actor_of s1 t)) number_of_turns)\<rparr>) s1
               in consume self s2)"

text \<open>
  \<^verbatim>\<open>HealingConsumable.activate\<close>. The call of \<^verbatim>\<open>heal\<close> comes first, so its effect on the
  consumer is part of the state on both branches.
\<close>

definition HealingConsumable_activate ::
  "ops \<Rightarrow> consumable \<Rightarrow> int \<Rightarrow> item_action \<Rightarrow> engine \<Rightarrow> result" where
  "HealingConsumable_activate E self amount action s =
     (let consumer = entity action;
          (amount_recovered, healed) = heal E amount (actor_of s consumer);
          s1 = set_actor consumer healed s
      in if amount_recovered > 0
         then consume self
                (add_message (HealedMsg (item_name s1 (parent self)) amount_recovered) s1)
         else Inl (Impossible ''Votre sante est deja au maximum.'', s1))"

text \<open>
  The loop of \<^verbatim>\<open>FireballDamageConsumable.activate\<close> over the actors of the map, carrying
  the state and the flag \<^verbatim>\<open>targets_hit\<close>.
\<close>

fun fireball_loop ::
  "ops \<Rightarrow> int \<Rightarrow> int \<Rightarrow> int \<times> int \<Rightarrow> actor_id list \<Rightarrow> engine \<Rightarrow> bool \<Rightarrow> engine \<times> bool" where
  "fireball_loop E damage radius xy [] s targets_hit = (s, targets_hit)"
| "fireball_loop E damage radius xy (a # rest) s targets_hit =
     (if distance E (actor_of s a) (fst xy) (snd xy) \<le> real_of_int radius
      then
        let s1 = add_message (ExplosionMsg (actor_name (actor_of s a)) damage) s;
            s2 = set_actor a (take_damage E damage (actor_of s1 a)) s1
        in fireball_loop E damage radius xy rest s2 True
      else fireball_loop E damage radius xy rest s targets_hit)"

definition FireballDamageConsumable_activate ::
  "ops \<Rightarrow> consumable \<Rightarrow> int \<Rightarrow> int \<Rightarrow> item_action \<Rightarrow> engine \<Rightarrow> result" where
  "FireballDamageConsumable_activate E self damage radius action s =
     (if \<not> visible s (target_xy action)
      then Inl (Impossible ''Vous ne pouvez pas viser hors de votre champ de vision.'', s)
      else
        let (s1, targets_hit) =
              fireball_loop E damage radius (target_xy action) (actors s) s False
        in if \<not> targets_hit
           then Inl (Impossible ''There are no targets in the radius.'', s1)
           else consume self s1)"

text \<open>
  Python's \<^verbatim>\<open>self.maximum_range + 1.0\<close> adds a float to an integer: the integer is
  converted to the nearest double, and the sum of the two doubles is rounded to the
  nearest double again. A double has 53 significant bits; a value in the middle of two
  doubles goes to the one whose last bit is 0. \<open>round_double n\<close> is the integer nearest
  to \<open>n\<close> with at most 53 significant bits: it keeps the top 53 bits \<open>q\<close> of \<open>\<bar>n\<bar>\<close> and
  rounds on the bits \<open>rest\<close> that it drops.
\<close>

definition round_double :: "int \<Rightarrow> int" where
  "round_double n =
     (let b = bitlen \<bar>n\<bar>
      in if b \<le> 53 then n
         else
           let sh = nat (b - 53);
               q = \<bar>n\<bar> div 2 ^ sh;
               rest = \<bar>n\<bar> mod 2 ^ sh;
               q' = (if 2 ^ sh < 2 * rest \<or> (2 * rest = 2 ^ sh \<and> odd q) then q + 1 else q)
           in sgn n * (q' * 2 ^ sh))"

text \<open>
  The conversion of an integer to a float raises \<^verbatim>\<open>OverflowError\<close> when the rounded
  value is beyond the largest double, that is from \<open>2 ^ 1024\<close> on. The float is a whole
  number and is kept as an integer.
\<close>

definition float_of_int :: "int \<Rightarrow> error + int" where
  "float_of_int n =
     (if 2 ^ 1024 \<le> \<bar>round_double n\<bar> then Inl OverflowError else Inr (round_double n))"

text \<open>
  \<^verbatim>\<open>n + 1.0\<close> for an integer \<open>n\<close>: the float of \<open>n\<close>, plus one, rounded to a double. The
  sum of the largest double and one rounds back to the largest double, so the addition
  itself does not overflow.
\<close>

definition int_plus_1_0 :: "int \<Rightarrow> error + real" where
  "int_plus_1_0 n =
     (case float_of_int n of
        Inl e \<Rightarrow> Inl e
      | Inr m \<Rightarrow> Inr (real_of_int (round_double (m + 1))))"

text \<open>
  The loop of \<^verbatim>\<open>LightningDamageConsumable.activate\<close>, carrying \<^verbatim>\<open>target\<close> and
  \<^verbatim>\<open>closest_distance\<close>; it reads the state and does not change it. The distance is
  the consumer's distance to the position of the actor.
\<close>

fun lightning_loop ::
  "ops \<Rightarrow> actor_id \<Rightarrow> engine \<Rightarrow> actor_id list \<Rightarrow> actor_id option \<Rightarrow> real
     \<Rightarrow> actor_id option \<times> real" where
  "lightning_loop E consumer s [] target closest_distance = (target, closest_distance)"
| "lightning_loop E consumer s (a # rest) target closest_distance =
     (if a \<noteq> consumer \<and> visible s (actor_x (actor_of s a), actor_y (actor_of s a))
      then
        let d = distance E (actor_of s consumer) (actor_x (actor_of s a)) (actor_y (actor_of s a))
        in if d < closest_distance
           then lightning_loop E consumer s rest (Some a) d
           else lightning_loop E consumer s rest target closest_distance
      else lightning_loop E consumer s rest target closest_distance)"

definition LightningDamageConsumable_activate ::
  "ops \<Rightarrow> consumable \<Rightarrow> int \<Rightarrow> int \<Rightarrow> item_action \<Rightarrow> engine \<Rightarrow> result" where
  "LightningDamageConsumable_activate E self damage maximum_range action s =
     (let consumer = entity action
      in case int_plus_1_0 maximum_range of
           Inl e \<Rightarrow> Inl (e, s)
         | Inr start \<Rightarrow>
             let (target, closest_distance) =
                   lightning_loop E consumer s (actors s) None start
             in case target of
                  Some t \<Rightarrow>
                    let s1 = add_message (LightningMsg (actor_name (actor_of s t)) damage) s;
                        s2 = set_actor t (take_damage E damage (actor_of s1 t)) s1
                    in consume self s2
                | None \<Rightarrow> Inl (Impossible ''Pas d'ennemi proche a cibler.'', s))"

text \<open>
  \<^verbatim>\<open>activate\<close>, dispatched on the class of the consumable. The base class raises
  \<^verbatim>\<open>NotImplementedError\<close>.
\<close>

fun activate :: "ops \<Rightarrow> consumable \<Rightarrow> item_action \<Rightarrow> engine \<Rightarrow> result" where
  "activate E (Consumable p) action s = Inl (NotImplementedError, s)"
| "activate E (ConfusionConsumable p number_of_turns) action s =
     ConfusionConsumable_activate (ConfusionConsumable p number_of_turns) number_of_turns action s"
| "activate E (HealingConsumable p amount) action s =
     HealingConsumable_activate E (HealingConsumable p amount) amount action s"
| "activate E (FireballDamageConsumable p damage radius) action s =
     FireballDamageConsumable_activate E (FireballDamageConsumable p damage radius)
       damage radius action s"
| "activate E (LightningDamageConsumable p damage maximum_range) action s =
     LightningDamageConsumable_activate E (LightningDamageConsumable p damage maximum_range)
       damage maximum_range action s"

section \<open>The engine's operations, as the spec describes them\<close>

text \<open>
  Modelled from the spec: \<^verbatim>\<open>Entity.distance\<close> is not in the verified file, and the
  spec speaks of the distance of an actor to a location without defining it. It is
  taken as the Euclidean distance of the two grid coordinates, a float in the program
  (the file adds the float \<^verbatim>\<open>1.0\<close> to a range to bound it). The model reads it as a
  real number, which orders the distances between the points of a game map the same
  way. The properties of \<^verbatim>\<open>activate\<close> below hold for every distance function; this one
  instantiates them in the examples.
\<close>

definition Entity_distance :: "actor \<Rightarrow> int \<Rightarrow> int \<Rightarrow> real" where
  "Entity_distance a x y = sqrt (real_of_int ((x - actor_x a)\<^sup>2 + (y - actor_y a)\<^sup>2))"

text \<open>
  Modelled from the spec: \<^verbatim>\<open>Fighter.take_damage\<close> is not in the verified file. An actor
  that takes \<open>amount\<close> damage has \<open>amount\<close> hit points less. The properties of
  \<^verbatim>\<open>activate\<close> below hold for every such method; this one instantiates them in the
  examples.
\<close>

definition Fighter_take_damage :: "int \<Rightarrow> actor \<Rightarrow> actor" where
  "Fighter_take_damage amount a = a\<lparr>hp := hp a - amount\<rparr>"

text \<open>
  Modelled from the spec: \<^verbatim>\<open>Fighter.heal\<close> is not in the verified file. Healing is
  applied if and only if the fighter is not at maximum HP: at maximum HP nothing is
  recovered; otherwise the fighter gains \<open>amount\<close>, capped at the maximum, and the
  difference to the old value is returned as the amount recovered.
\<close>

definition Fighter_heal :: "int \<Rightarrow> actor \<Rightarrow> int \<times> actor" where
  "Fighter_heal amount a =
     (if hp a = max_hp a then (0, a)
      else
        let new_hp_value = min (hp a + amount) (max_hp a);
            amount_recovered = new_hp_value - hp a
        in (amount_recovered, a\<lparr>hp := new_hp_value\<rparr>))"

text \<open>The three methods together, as the parameter of the model.\<close>

definition game_ops :: ops where
  "game_ops =
     \<lparr>distance = Entity_distance, take_damage = Fighter_take_damage, heal = Fighter_heal\<rparr>"

section \<open>Notions used by the properties\<close>

text \<open>The location of an actor, as a coordinate pair.\<close>

definition position :: "engine \<Rightarrow> actor_id \<Rightarrow> int \<times> int" where
  "position s a = (actor_x (actor_of s a), actor_y (actor_of s a))"

text \<open>
  \<open>in_radius E s xy radius a\<close>: the distance of actor \<open>a\<close> to the location \<open>xy\<close> is within
  \<open>radius\<close>.
\<close>

definition in_radius :: "ops \<Rightarrow> engine \<Rightarrow> int \<times> int \<Rightarrow> int \<Rightarrow> actor_id \<Rightarrow> bool" where
  "in_radius E s xy radius a =
     (distance E (actor_of s a) (fst xy) (snd xy) \<le> real_of_int radius)"

text \<open>
  The actors a lightning scroll may strike: on the map, other than the consumer, at a
  visible location; and the distance of the consumer to an actor.
\<close>

definition candidate :: "engine \<Rightarrow> actor_id \<Rightarrow> actor_id \<Rightarrow> bool" where
  "candidate s consumer a =
     (a \<in> set (actors s) \<and> a \<noteq> consumer \<and> visible s (position s a))"

definition distance_to :: "ops \<Rightarrow> engine \<Rightarrow> actor_id \<Rightarrow> actor_id \<Rightarrow> real" where
  "distance_to E s consumer a =
     distance E (actor_of s consumer) (actor_x (actor_of s a)) (actor_y (actor_of s a))"

text \<open>The invariant of the data model: an item belongs to at most one inventory.\<close>

definition at_most_one_inventory :: "engine \<Rightarrow> bool" where
  "at_most_one_inventory s =
     (\<forall>it i j. it \<in> set (inventory_items s i) \<and> it \<in> set (inventory_items s j) \<longrightarrow> i = j)"

text \<open>
  The state after the two statements of \<^verbatim>\<open>ConfusionConsumable.activate\<close> that follow
  its checks: the message is logged and the AI of the target \<open>t\<close> is replaced.
\<close>

definition confuse :: "actor_id \<Rightarrow> int \<Rightarrow> engine \<Rightarrow> engine" where
  "confuse t n s =
     set_actor t ((actor_of s t)\<lparr>ai := Some (ConfusedEnemy t (ai (actor_of s t)) n)\<rparr>)
       (add_message (ConfusedMsg (actor_name (actor_of s t))) s)"

text \<open>
  The state after the two statements of \<^verbatim>\<open>LightningDamageConsumable.activate\<close> that
  strike the target \<open>t\<close>: the message is logged and the target takes the damage.
\<close>

definition strike :: "ops \<Rightarrow> actor_id \<Rightarrow> int \<Rightarrow> engine \<Rightarrow> engine" where
  "strike E t damage s =
     set_actor t (take_damage E damage (actor_of s t))
       (add_message (LightningMsg (actor_name (actor_of s t)) damage) s)"

text \<open>An actor healed by up to \<open>amount\<close>, capped at its maximum HP.\<close>

definition healed :: "int \<Rightarrow> actor \<Rightarrow> actor" where
  "healed amount a = a\<lparr>hp := min (hp a + amount) (max_hp a)\<rparr>"

section \<open>A small scene\<close>

text \<open>
  A player carrying one item of each kind, an orc next to the player, and a troll out of
  sight; item 4 lies on the floor.
\<close>

definition player :: actor where
  "player = \<lparr>actor_x = 0, actor_y = 0, actor_name = ''Player'', ai = Some (OtherAI 0),
              hp = 20, max_hp = 30\<rparr>"

definition orc :: actor where
  "orc = \<lparr>actor_x = 1, actor_y = 1, actor_name = ''Orc'', ai = Some (OtherAI 1),
           hp = 10, max_hp = 10\<rparr>"

definition troll :: actor where
  "troll = \<lparr>actor_x = 5, actor_y = 5, actor_name = ''Troll'', ai = Some (OtherAI 1),
             hp = 16, max_hp = 16\<rparr>"

definition scene :: engine where
  "scene =
     \<lparr>actors = [0, 1, 2],
      visible = (\<lambda>xy. 0 \<le> fst xy \<and> fst xy \<le> 3 \<and> 0 \<le> snd xy \<and> snd xy \<le> 3),
      actor_of = (\<lambda>i. if i = 0 then player else if i = 1 then orc else troll),
      item_parent = (\<lambda>i. if i < 4 then ParentInventory 0 else ParentGameMap),
      item_name = (\<lambda>i. ''Potion''),
      inventory_items = (\<lambda>i. if i = 0 then [0, 1, 2, 3] else []),
      message_log = []\<rparr>"

definition use_item :: "item_id \<Rightarrow> int \<times> int \<Rightarrow> item_action" where
  "use_item i xy = \<lparr>entity = 0, item = i, target_xy = xy\<rparr>"

text \<open>The same scene with the confusion scroll, item 1, listed twice in the inventory.\<close>

definition scene_twice :: engine where
  "scene_twice = scene\<lparr>inventory_items := (\<lambda>i. if i = 0 then [1, 0, 1, 2, 3] else [])\<rparr>"


section \<open>Facts about the engine's operations\<close>

lemma sqrt_le_of_int_iff:
  "0 \<le> r \<Longrightarrow> sqrt (real_of_int v) \<le> real_of_int r \<longleftrightarrow> v \<le> r\<^sup>2"
proof
  assume "0 \<le> r" and "sqrt (real_of_int v) \<le> real_of_int r"
  then have "real_of_int v \<le> (real_of_int r)\<^sup>2" by (rule_tac sqrt_le_D)
  then have "real_of_int v \<le> real_of_int (r\<^sup>2)" by simp
  then show "v \<le> r\<^sup>2" by (simp only: of_int_le_iff)
next
  assume r: "0 \<le> r" and "v \<le> r\<^sup>2"
  then have "real_of_int v \<le> real_of_int (r\<^sup>2)" by (simp only: of_int_le_iff)
  then have "real_of_int v \<le> (real_of_int r)\<^sup>2" by simp
  with r show "sqrt (real_of_int v) \<le> real_of_int r" by (simp add: real_le_lsqrt)
qed

lemma Entity_distance_le_iff:
  "Entity_distance a x y \<le> real_of_int r \<longleftrightarrow>
     0 \<le> r \<and> (x - actor_x a)\<^sup>2 + (y - actor_y a)\<^sup>2 \<le> r\<^sup>2"
proof (cases "0 \<le> r")
  case True
  then show ?thesis
    unfolding Entity_distance_def by (simp only: sqrt_le_of_int_iff simp_thms)
next
  case False
  have "0 \<le> Entity_distance a x y" by (simp add: Entity_distance_def)
  with False show ?thesis by simp
qed

lemma game_ops_simps [simp]:
  "distance game_ops = Entity_distance"
  "take_damage game_ops = Fighter_take_damage"
  "heal game_ops = Fighter_heal"
  by (simp_all add: game_ops_def)

lemma in_radius_game_ops:
  "in_radius game_ops s xy r a \<longleftrightarrow>
     0 \<le> r \<and> (fst xy - actor_x (actor_of s a))\<^sup>2 + (snd xy - actor_y (actor_of s a))\<^sup>2 \<le> r\<^sup>2"
  by (simp add: in_radius_def Entity_distance_le_iff)

section \<open>Facts about the scene\<close>

lemma scene_simps [simp]:
  "actors scene = [0, 1, 2]"
  "visible scene xy = (0 \<le> fst xy \<and> fst xy \<le> 3 \<and> 0 \<le> snd xy \<and> snd xy \<le> 3)"
  "actor_of scene 0 = player"
  "actor_of scene (Suc 0) = orc"
  "actor_of scene 2 = troll"
  "item_parent scene i = (if i < 4 then ParentInventory 0 else ParentGameMap)"
  "item_name scene i = ''Potion''"
  "inventory_items scene j = (if j = 0 then [0, 1, 2, 3] else [])"
  "message_log scene = []"
  by (simp_all add: scene_def)

lemma use_item_simps [simp]:
  "entity (use_item i xy) = 0"
  "item (use_item i xy) = i"
  "target_xy (use_item i xy) = xy"
  by (simp_all add: use_item_def)

lemma actor_simps [simp]:
  "actor_x player = 0" "actor_y player = 0" "hp player = 20" "max_hp player = 30"
  "actor_x orc = 1" "actor_y orc = 1" "hp orc = 10" "max_hp orc = 10"
  "actor_x troll = 5" "actor_y troll = 5" "hp troll = 16" "max_hp troll = 16"
  by (simp_all add: player_def orc_def troll_def)

lemma scene_position [simp]:
  "position scene 0 = (0, 0)" "position scene (Suc 0) = (1, 1)" "position scene 2 = (5, 5)"
  by (simp_all add: position_def)

lemma scene_target_actor [simp]:
  "target_actor (use_item i (0, 0)) scene = Some 0"
  "target_actor (use_item i (1, 1)) scene = Some (Suc 0)"
  "target_actor (use_item i (2, 2)) scene = None"
  by (simp_all add: target_actor_def get_actor_at_location_def)

lemma scene_twice_simps [simp]:
  "actors scene_twice = actors scene"
  "visible scene_twice = visible scene"
  "actor_of scene_twice = actor_of scene"
  "item_parent scene_twice = item_parent scene"
  "item_name scene_twice = item_name scene"
  "inventory_items scene_twice j = (if j = 0 then [1, 0, 1, 2, 3] else [])"
  "target_actor action scene_twice = target_actor action scene"
  by (simp_all add: scene_twice_def target_actor_def get_actor_at_location_def)

lemma set_actor_same [simp]: "set_actor i (actor_of s i) s = s"
  by (simp add: set_actor_def)

lemma scene_set_player [simp]: "set_actor 0 player scene = scene"
  using set_actor_same [of 0 scene] by simp

section \<open>Results of a call\<close>

lemma final_simps [simp]: "final (Inl (e, s)) = s" "final (Inr s) = s"
  by (simp_all add: final_def)

lemma raises_Impossible_simps [simp]:
  "raises_Impossible (Inl (Impossible m, s))"
  "\<not> raises_Impossible (Inl (ValueError, s))"
  "\<not> raises_Impossible (Inl (NotImplementedError, s))"
  "\<not> raises_Impossible (Inl (OverflowError, s))"
  "\<not> raises_Impossible (Inr s)"
  by (simp_all add: raises_Impossible_def)

lemma raised_simps [simp]: "raised (Inl (e, s)) = Some e" "raised (Inr s) = None"
  by (simp_all add: raised_def)

lemma raises_Impossible_raised: "raises_Impossible r \<longleftrightarrow> (\<exists>m. raised r = Some (Impossible m))"
  by (auto simp add: raises_Impossible_def raised_def split: sum.splits error.splits)

section \<open>Floats of integers\<close>

lemma round_double_exact: "\<bar>n\<bar> \<le> 2 ^ 53 \<Longrightarrow> round_double n = n"
proof (cases "\<bar>n\<bar> < 2 ^ 53")
  case True
  then have "bitlen \<bar>n\<bar> \<le> 53" by (simp add: bitlen_le_iff_power)
  then show ?thesis by (simp add: round_double_def)
next
  case False
  assume "\<bar>n\<bar> \<le> 2 ^ 53"
  with False have n: "\<bar>n\<bar> = 2 ^ 53" by simp
  have "bitlen (1 * 2 ^ 53) = bitlen 1 + int 53" by (rule bitlen_pow2) simp
  moreover have "bitlen 1 = 1" by (simp add: bitlen_alt_def)
  ultimately have b: "bitlen \<bar>n\<bar> = 54" using n by simp
  from n have "sgn n * 2 ^ 53 = n" by (metis mult.commute mult_sgn_abs)
  with n b show ?thesis by (simp add: round_double_def Let_def)
qed

text \<open>Below \<open>2 ^ 53\<close> in absolute value, \<^verbatim>\<open>n + 1.0\<close> is exact.\<close>

lemma int_plus_1_0_exact:
  assumes "\<bar>n\<bar> < 2 ^ 53"
  shows "int_plus_1_0 n = Inr (real_of_int n + 1)"
proof -
  from assms have n: "round_double n = n" by (simp add: round_double_exact)
  from assms have "\<bar>n + 1\<bar> \<le> 2 ^ 53" by simp
  then have n1: "round_double (n + 1) = n + 1" by (rule round_double_exact)
  from assms have "\<not> (2::int) ^ 1024 \<le> \<bar>n\<bar>" by simp
  with n n1 show ?thesis by (simp add: int_plus_1_0_def float_of_int_def)
qed



section \<open>Consuming an item\<close>

lemma consume_cases:
  "consume self s =
     (case item_parent s (parent self) of
        ParentInventory i \<Rightarrow>
          if parent self \<in> set (inventory_items s i)
          then Inr (s\<lparr>inventory_items :=
                 (inventory_items s)(i := remove1 (parent self) (inventory_items s i))\<rparr>)
          else Inl (ValueError, s)
      | ParentGameMap \<Rightarrow> Inr s
      | ParentNone \<Rightarrow> Inr s)"
  by (simp add: consume_def Let_def split: item_parent.splits)

lemma consume_not_Impossible: "\<not> raises_Impossible (consume self s)"
  by (simp add: consume_cases split: item_parent.splits)

lemma consume_raised [simp]:
  "raised (consume self s) \<noteq> Some NotImplementedError"
  "raised (consume self s) \<noteq> Some OverflowError"
  by (simp_all add: consume_cases split: item_parent.splits)

lemma consume_actor_of: "actor_of (final (consume self s)) = actor_of s"
  by (simp add: consume_cases split: item_parent.splits)

lemma consume_inventory_items:
  "inventory_items (final (consume self s)) i =
     (if item_parent s (parent self) = ParentInventory i
      then remove1 (parent self) (inventory_items s i) else inventory_items s i)"
  by (auto simp add: consume_cases remove1_idem split: item_parent.splits)


text \<open>
  Claim C10: for an item whose parent is not an inventory (an item lying on the map, for
  example), \<^verbatim>\<open>Consumable.consume\<close> returns without raising and leaves the whole state,
  so every inventory, as it was; an inventory list changes only when the item's parent
  is an inventory.
\<close>

theorem consume_without_inventory:
  "((\<forall>i. item_parent s (parent self) \<noteq> ParentInventory i) \<longrightarrow> consume self s = Inr s) \<and>
   (inventory_items (final (consume self s)) \<noteq> inventory_items s \<longrightarrow>
      (\<exists>i. item_parent s (parent self) = ParentInventory i))"
  by (auto simp add: consume_cases split: item_parent.splits)

theorem consume_without_inventory_witness:
  "item_parent scene 4 = ParentGameMap \<and> consume (HealingConsumable 4 4) scene = Inr scene"
  using consume_without_inventory [of scene "HealingConsumable 4 4"]
  by simp

section \<open>The fireball scroll\<close>

lemma fireball_loop_hit: "snd (fireball_loop E damage radius xy as s True)"
  by (induction as arbitrary: s) (simp_all add: Let_def)

lemma fireball_loop_flag:
  "snd (fireball_loop E damage radius xy as s h) =
     (h \<or> (\<exists>a\<in>set as. in_radius E s xy radius a))"
  by (induction as arbitrary: s h) (simp_all add: Let_def fireball_loop_hit in_radius_def)

lemma fireball_loop_miss:
  "\<forall>a\<in>set as. \<not> in_radius E s xy radius a \<Longrightarrow>
     fireball_loop E damage radius xy as s h = (s, h)"
  by (induction as) (simp_all add: in_radius_def)

text \<open>
  Each actor is visited once, so the actor that the loop meets is still the actor of the
  starting state: the damage of the earlier iterations went to other actors.
\<close>

lemma fireball_loop_actor_of:
  "distinct as \<Longrightarrow>
   actor_of (fst (fireball_loop E damage radius xy as s h)) i =
     (if i \<in> set as \<and> in_radius E s xy radius i
      then take_damage E damage (actor_of s i) else actor_of s i)"
proof (induction as arbitrary: s h)
  case Nil
  then show ?case by simp
next
  case (Cons a as)
  then show ?case
    by (auto simp add: Let_def set_actor_def add_message_def in_radius_def)
qed

lemma fireball_loop_frame:
  "item_parent (fst (fireball_loop E damage radius xy as s h)) = item_parent s"
  "inventory_items (fst (fireball_loop E damage radius xy as s h)) = inventory_items s"
  by (induction as arbitrary: s h) (simp_all add: Let_def set_actor_def add_message_def)

lemma Fireball_cases:
  "FireballDamageConsumable_activate E self damage radius action s =
     (if \<not> visible s (target_xy action)
      then Inl (Impossible ''Vous ne pouvez pas viser hors de votre champ de vision.'', s)
      else if \<not> (\<exists>a\<in>set (actors s). in_radius E s (target_xy action) radius a)
      then Inl (Impossible ''There are no targets in the radius.'', s)
      else consume self
             (fst (fireball_loop E damage radius (target_xy action) (actors s) s False)))"
proof (cases "\<exists>a\<in>set (actors s). in_radius E s (target_xy action) radius a")
  case True
  then have "snd (fireball_loop E damage radius (target_xy action) (actors s) s False)"
    by (simp add: fireball_loop_flag)
  then obtain s1 where
    "fireball_loop E damage radius (target_xy action) (actors s) s False = (s1, True)"
    by (cases "fireball_loop E damage radius (target_xy action) (actors s) s False") simp
  with True show ?thesis
    by (simp add: FireballDamageConsumable_activate_def)
next
  case False
  then have "fireball_loop E damage radius (target_xy action) (actors s) s False = (s, False)"
    by (simp add: fireball_loop_miss)
  with False show ?thesis
    by (simp add: FireballDamageConsumable_activate_def)
qed

text \<open>
  Claim C1: when the target location of a fireball is visible, every actor of the map
  takes the damage (\<^verbatim>\<open>take_damage(damage)\<close> is applied to it, once) if and only if its
  distance to the target location is within the radius; an actor outside the radius is
  unchanged. The map yields each of its actors once (\<open>distinct\<close>).
\<close>

theorem fireball_damage:
  assumes "visible s (target_xy action)" and "distinct (actors s)"
  shows "\<forall>a\<in>set (actors s).
           actor_of (final (activate E (FireballDamageConsumable p damage radius) action s)) a =
             (if in_radius E s (target_xy action) radius a
              then take_damage E damage (actor_of s a) else actor_of s a)"
  using assms
  by (simp add: Fireball_cases consume_actor_of fireball_loop_actor_of)

theorem fireball_damage_witness:
  "visible scene (1, 1) \<and> distinct (actors scene) \<and>
   actor_of (final (activate game_ops (FireballDamageConsumable 2 12 2) (use_item 2 (1, 1)) scene)) 1
     = Fighter_take_damage 12 orc \<and>
   actor_of (final (activate game_ops (FireballDamageConsumable 2 12 2) (use_item 2 (1, 1)) scene)) 2
     = troll"
  using fireball_damage [of scene "use_item 2 (1, 1)" game_ops 2 12 2]
  by (simp add: in_radius_game_ops)

text \<open>
  Claim C8: a fireball raises \<^verbatim>\<open>Impossible\<close> exactly when the target location is not
  visible or no actor of the map lies within the radius of the target location; when it
  raises, the state is the state before the call, so no actor has been damaged.
\<close>

theorem fireball_raises:
  "(raises_Impossible (activate E (FireballDamageConsumable p damage radius) action s) \<longleftrightarrow>
      \<not> visible s (target_xy action) \<or>
      \<not> (\<exists>a\<in>set (actors s). in_radius E s (target_xy action) radius a)) \<and>
   (raises_Impossible (activate E (FireballDamageConsumable p damage radius) action s) \<longrightarrow>
      final (activate E (FireballDamageConsumable p damage radius) action s) = s)"
  by (simp add: Fireball_cases consume_not_Impossible)

theorem fireball_raises_witness:
  "\<not> visible scene (5, 5) \<and>
   raises_Impossible (activate game_ops (FireballDamageConsumable 2 12 2) (use_item 2 (5, 5)) scene) \<and>
   final (activate game_ops (FireballDamageConsumable 2 12 2) (use_item 2 (5, 5)) scene) = scene"
  using fireball_raises [of game_ops 2 12 2 "use_item 2 (5, 5)" scene]
  by simp

section \<open>The confusion scroll\<close>

lemma target_actor_None_iff:
  "target_actor action s = None \<longleftrightarrow> (\<forall>a\<in>set (actors s). position s a \<noteq> target_xy action)"
  by (auto simp add: target_actor_def get_actor_at_location_def position_def find_None_iff
      prod_eq_iff)

lemma target_actor_Some:
  "target_actor action s = Some t \<Longrightarrow> t \<in> set (actors s) \<and> position s t = target_xy action"
  by (auto simp add: target_actor_def get_actor_at_location_def position_def find_Some_iff
      prod_eq_iff)

lemma Confusion_cases:
  "ConfusionConsumable_activate self n action s =
     (if \<not> visible s (target_xy action)
      then Inl (Impossible ''Vous ne pouvez pas cibler un endroit hors du champ de vision.'', s)
      else case target_actor action s of
        None \<Rightarrow> Inl (Impossible ''Vous devez selectionner un ennemi.'', s)
      | Some t \<Rightarrow>
          if t = entity action
          then Inl (Impossible ''Vous ne pouvez pas vous rendre vous-meme confus!'', s)
          else consume self (confuse t n s))"
  by (simp add: ConfusionConsumable_activate_def confuse_def Let_def add_message_def set_actor_def
      split: option.splits)

lemma confuse_simps [simp]:
  "ai (actor_of (confuse t n s) t) = Some (ConfusedEnemy t (ai (actor_of s t)) n)"
  "item_parent (confuse t n s) = item_parent s"
  "inventory_items (confuse t n s) = inventory_items s"
  "a \<noteq> t \<Longrightarrow> actor_of (confuse t n s) a = actor_of s a"
  by (simp_all add: confuse_def set_actor_def add_message_def)

text \<open>
  Claim C4: a confusion scroll raises \<^verbatim>\<open>Impossible\<close> exactly when the target location is
  not visible, or no actor of the map stands at the target location, or the actor at the
  target location is the consumer; in every other case no \<^verbatim>\<open>Impossible\<close> is raised and
  the actor at the target location is confused.
\<close>

theorem confusion_raises:
  "(raises_Impossible (activate E (ConfusionConsumable p n) action s) \<longleftrightarrow>
      \<not> visible s (target_xy action) \<or>
      (\<forall>a\<in>set (actors s). position s a \<noteq> target_xy action) \<or>
      target_actor action s = Some (entity action)) \<and>
   (\<not> raises_Impossible (activate E (ConfusionConsumable p n) action s) \<longrightarrow>
      (\<exists>t. target_actor action s = Some t \<and>
           ai (actor_of (final (activate E (ConfusionConsumable p n) action s)) t) =
             Some (ConfusedEnemy t (ai (actor_of s t)) n)))"
  by (auto simp add: Confusion_cases consume_not_Impossible consume_actor_of
      target_actor_None_iff [symmetric] split: option.splits)

theorem confusion_raises_witness:
  "visible scene (1, 1) \<and> target_actor (use_item 1 (1, 1)) scene = Some 1 \<and>
   \<not> raises_Impossible (activate game_ops (ConfusionConsumable 1 10) (use_item 1 (1, 1)) scene) \<and>
   ai (actor_of (final (activate game_ops (ConfusionConsumable 1 10) (use_item 1 (1, 1)) scene)) 1)
     = Some (ConfusedEnemy 1 (Some (OtherAI 1)) 10)"
  using confusion_raises [of game_ops 1 10 "use_item 1 (1, 1)" scene]
  by (simp add: orc_def)

text \<open>
  Claim C7: after a confusion scroll that returns, the AI of the actor at the target
  location is a \<^verbatim>\<open>ConfusedEnemy\<close> whose \<^verbatim>\<open>previous_ai\<close> is the AI that the target had
  before the call and whose \<^verbatim>\<open>turns_remaining\<close> is the scroll's \<^verbatim>\<open>number_of_turns\<close>.
\<close>

theorem confusion_replaces_ai:
  assumes "activate E (ConfusionConsumable p n) action s = Inr s'"
  shows "\<exists>t. target_actor action s = Some t \<and> t \<noteq> entity action \<and>
           ai (actor_of s' t) = Some (ConfusedEnemy t (ai (actor_of s t)) n)"
proof -
  from assms obtain t where t: "target_actor action s = Some t" "t \<noteq> entity action"
    and c: "consume (ConfusionConsumable p n) (confuse t n s) = Inr s'"
    by (auto simp add: Confusion_cases split: if_splits option.splits)
  from c have "actor_of s' = actor_of (confuse t n s)"
    using consume_actor_of [of "ConfusionConsumable p n" "confuse t n s"] by simp
  with t show ?thesis by simp
qed

theorem confusion_replaces_ai_witness:
  "activate game_ops (ConfusionConsumable 1 10) (use_item 1 (1, 1)) scene
     = Inr (final (activate game_ops (ConfusionConsumable 1 10) (use_item 1 (1, 1)) scene)) \<and>
   ai (actor_of (final (activate game_ops (ConfusionConsumable 1 10) (use_item 1 (1, 1)) scene)) 1)
     = Some (ConfusedEnemy 1 (Some (OtherAI 1)) 10)"
proof -
  have r: "activate game_ops (ConfusionConsumable 1 10) (use_item 1 (1, 1)) scene
     = Inr (final (activate game_ops (ConfusionConsumable 1 10) (use_item 1 (1, 1)) scene))"
    by (simp add: Confusion_cases consume_cases)
  from confusion_replaces_ai [OF r] show ?thesis
    using r by (simp add: orc_def)
qed

section \<open>The lightning scroll\<close>




lemma Lightning_cases:
  "LightningDamageConsumable_activate E self damage r action s =
     (case int_plus_1_0 r of
        Inl e \<Rightarrow> Inl (e, s)
      | Inr start \<Rightarrow>
          (case fst (lightning_loop E (entity action) s (actors s) None start) of
             Some t \<Rightarrow> consume self (strike E t damage s)
           | None \<Rightarrow> Inl (Impossible ''Pas d'ennemi proche a cibler.'', s)))"
  by (simp add: LightningDamageConsumable_activate_def strike_def Let_def add_message_def
      set_actor_def split: prod.splits option.splits sum.splits)

lemma strike_simps [simp]:
  "item_parent (strike E t damage s) = item_parent s"
  "inventory_items (strike E t damage s) = inventory_items s"
  "actor_of (strike E t damage s) = (actor_of s)(t := take_damage E damage (actor_of s t))"
  by (simp_all add: strike_def set_actor_def add_message_def)






text \<open>
  With the Euclidean distance, an actor between \<^verbatim>\<open>maximum_range\<close> and
  \<^verbatim>\<open>maximum_range + 1\<close> is struck: for \<^verbatim>\<open>maximum_range = 1\<close>, the orc of the scene stands
  diagonally next to the player, at distance \<open>sqrt 2\<close>, no other actor is visible, and
  the scroll strikes the orc.
\<close>

lemma lightning_euclidean_example:
  "\<not> (\<exists>a. candidate scene 0 a \<and> distance_to game_ops scene 0 a \<le> real_of_int 1) \<and>
   activate game_ops (LightningDamageConsumable 3 20 1) (use_item 3 (0, 0)) scene =
     consume (LightningDamageConsumable 3 20 1) (strike game_ops 1 20 scene)"
proof -
  have "\<not> (candidate scene 0 a \<and> distance_to game_ops scene 0 a \<le> real_of_int 1)" for a
    by (auto simp add: candidate_def distance_to_def Entity_distance_def)
  moreover have "int_plus_1_0 1 = Inr (real_of_int 1 + 1)"
    by (rule int_plus_1_0_exact) simp
  then have "activate game_ops (LightningDamageConsumable 3 20 1) (use_item 3 (0, 0)) scene =
     consume (LightningDamageConsumable 3 20 1) (strike game_ops 1 20 scene)"
    by (simp add: Lightning_cases Entity_distance_def sqrt2_less_2)
  ultimately show ?thesis by simp
qed

section \<open>The healing potion\<close>

lemma Fighter_heal_below:
  "0 < amount \<Longrightarrow> hp a < max_hp a \<Longrightarrow>
     Fighter_heal amount a = (hp (healed amount a) - hp a, healed amount a) \<and>
     0 < hp (healed amount a) - hp a"
  by (simp add: Fighter_heal_def healed_def Let_def)

lemma Fighter_heal_at_max: "hp a = max_hp a \<Longrightarrow> Fighter_heal amount a = (0, a)"
  by (simp add: Fighter_heal_def)

text \<open>
  The heal of the spec leaves the fighter as it is when it reports that nothing was
  recovered, for an amount that is not negative and a fighter whose HP does not exceed
  its maximum.
\<close>

lemma Fighter_heal_nothing:
  "0 \<le> amount \<Longrightarrow> hp a \<le> max_hp a \<Longrightarrow> \<not> 0 < fst (Fighter_heal amount a) \<Longrightarrow>
     snd (Fighter_heal amount a) = a"
  by (auto simp add: Fighter_heal_def Let_def min_def split: if_splits)

lemma Fighter_heal_zero: "hp a \<le> max_hp a \<Longrightarrow> Fighter_heal 0 a = (0, a)"
  by (simp add: Fighter_heal_def Let_def min_def)

lemma Healing_cases:
  "HealingConsumable_activate E self amount action s =
     (if 0 < fst (heal E amount (actor_of s (entity action)))
      then consume self
             (add_message
                (HealedMsg (item_name s (parent self))
                   (fst (heal E amount (actor_of s (entity action)))))
                (set_actor (entity action) (snd (heal E amount (actor_of s (entity action)))) s))
      else Inl (Impossible ''Votre sante est deja au maximum.'',
                set_actor (entity action) (snd (heal E amount (actor_of s (entity action)))) s))"
  by (simp add: HealingConsumable_activate_def Let_def set_actor_def split: prod.splits)

text \<open>
  Claim C2, for a potion whose \<^verbatim>\<open>amount\<close> is positive: when the consumer's HP is below
  its maximum, the consumer is healed by \<^verbatim>\<open>amount\<close>, capped at the maximum, and the
  item is consumed; when the consumer is at maximum HP, \<^verbatim>\<open>Impossible\<close> is raised and
  the state, so the inventory, is unchanged. For a consumer whose HP does not exceed its
  maximum, \<^verbatim>\<open>Impossible\<close> is raised if and only if it is at maximum HP.
\<close>

theorem healing_applied:
  assumes "heal E = Fighter_heal" and "0 < amount"
  shows
   "(hp (actor_of s (entity action)) < max_hp (actor_of s (entity action)) \<longrightarrow>
       activate E (HealingConsumable p amount) action s =
         consume (HealingConsumable p amount)
           (add_message
              (HealedMsg (item_name s p)
                 (hp (healed amount (actor_of s (entity action))) - hp (actor_of s (entity action))))
              (set_actor (entity action) (healed amount (actor_of s (entity action))) s)) \<and>
       hp (actor_of s (entity action)) < hp (healed amount (actor_of s (entity action))) \<and>
       hp (healed amount (actor_of s (entity action))) \<le> hp (actor_of s (entity action)) + amount \<and>
       hp (healed amount (actor_of s (entity action))) \<le> max_hp (actor_of s (entity action))) \<and>
    (hp (actor_of s (entity action)) = max_hp (actor_of s (entity action)) \<longrightarrow>
       activate E (HealingConsumable p amount) action s =
         Inl (Impossible ''Votre sante est deja au maximum.'', s)) \<and>
    (hp (actor_of s (entity action)) \<le> max_hp (actor_of s (entity action)) \<longrightarrow>
       (raises_Impossible (activate E (HealingConsumable p amount) action s) \<longleftrightarrow>
          hp (actor_of s (entity action)) = max_hp (actor_of s (entity action))))"
proof -
  let ?a = "actor_of s (entity action)"
  let ?r = "activate E (HealingConsumable p amount) action s"
  have below: "?r = consume (HealingConsumable p amount)
           (add_message (HealedMsg (item_name s p) (hp (healed amount ?a) - hp ?a))
              (set_actor (entity action) (healed amount ?a) s))"
    if "hp ?a < max_hp ?a"
    using Fighter_heal_below [OF assms(2) that] assms(1) by (simp add: Healing_cases)
  have at_max: "?r = Inl (Impossible ''Votre sante est deja au maximum.'', s)"
    if "hp ?a = max_hp ?a"
    using Fighter_heal_at_max [OF that] assms(1) by (simp add: Healing_cases)
  have more: "hp ?a < hp (healed amount ?a)" if "hp ?a < max_hp ?a"
    using that assms(2) by (simp add: healed_def)
  have capped: "hp (healed amount ?a) \<le> hp ?a + amount" "hp (healed amount ?a) \<le> max_hp ?a"
    by (simp_all add: healed_def)
  have iff: "raises_Impossible ?r \<longleftrightarrow> hp ?a = max_hp ?a" if "hp ?a \<le> max_hp ?a"
  proof (cases "hp ?a = max_hp ?a")
    case True
    with at_max show ?thesis by simp
  next
    case False
    with that have "hp ?a < max_hp ?a" by simp
    from below [OF this] False show ?thesis by (simp add: consume_not_Impossible)
  qed
  from below at_max more capped iff show ?thesis by blast
qed

theorem healing_applied_witness:
  "heal game_ops = Fighter_heal \<and> (0::int) < 4 \<and> hp (actor_of scene 0) < max_hp (actor_of scene 0) \<and>
   activate game_ops (HealingConsumable 0 4) (use_item 0 (0, 0)) scene =
     consume (HealingConsumable 0 4)
       (add_message (HealedMsg ''Potion'' 4) (set_actor 0 (player\<lparr>hp := 24\<rparr>) scene))"
  using healing_applied [of game_ops 4 scene "use_item 0 (0, 0)" 0]
  by (simp add: healed_def)

text \<open>
  The claim as the spec states it fails for a potion of amount 0: the player of the
  scene is below maximum HP, nothing is recovered, and \<^verbatim>\<open>activate\<close> raises
  \<^verbatim>\<open>Impossible\<close> without healing or consuming.
\<close>

theorem healing_zero_amount_counterexample:
  "hp (actor_of scene 0) < max_hp (actor_of scene 0) \<and>
   raises_Impossible (activate game_ops (HealingConsumable 0 0) (use_item 0 (0, 0)) scene) \<and>
   final (activate game_ops (HealingConsumable 0 0) (use_item 0 (0, 0)) scene) = scene"
  by (simp add: Healing_cases Fighter_heal_zero)

section \<open>Every consumable\<close>

text \<open>
  Every \<^verbatim>\<open>activate\<close> either ends with \<^verbatim>\<open>consume\<close>, called in a state whose
  inventories are those of the starting state, or raises in such a state an exception
  of its own, which is not the \<^verbatim>\<open>ValueError\<close> of \<^verbatim>\<open>consume\<close>.
\<close>

lemma activate_outcome:
  "\<exists>s1. item_parent s1 = item_parent s \<and> inventory_items s1 = inventory_items s \<and>
        (activate E c action s = consume c s1 \<or>
         (\<exists>e. activate E c action s = Inl (e, s1) \<and> e \<noteq> ValueError))"
proof (cases c)
  case (Consumable p)
  then show ?thesis by auto
next
  case (ConfusionConsumable p n)
  show ?thesis
  proof (cases "raises_Impossible (activate E c action s)")
    case True
    then show ?thesis
      unfolding ConfusionConsumable
      by (auto simp add: Confusion_cases consume_not_Impossible split: if_splits option.splits)
  next
    case False
    then obtain t where "activate E c action s = consume c (confuse t n s)"
      unfolding ConfusionConsumable
      by (auto simp add: Confusion_cases split: if_splits option.splits)
    then show ?thesis
      by (intro exI [of _ "confuse t n s"]) simp
  qed
next
  case (HealingConsumable p amount)
  let ?s1 = "set_actor (entity action) (snd (heal E amount (actor_of s (entity action)))) s"
  let ?s2 = "add_message (HealedMsg (item_name s p) (fst (heal E amount (actor_of s (entity action))))) ?s1"
  show ?thesis
  proof (cases "0 < fst (heal E amount (actor_of s (entity action)))")
    case True
    then have "activate E c action s = consume c ?s2"
      unfolding HealingConsumable by (simp add: Healing_cases)
    then show ?thesis
      by (intro exI [of _ ?s2]) (simp add: set_actor_def add_message_def)
  next
    case False
    then have "activate E c action s = Inl (Impossible ''Votre sante est deja au maximum.'', ?s1)"
      unfolding HealingConsumable by (simp add: Healing_cases)
    then show ?thesis
      by (intro exI [of _ ?s1]) (simp add: set_actor_def)
  qed
next
  case (FireballDamageConsumable p damage radius)
  let ?s1 = "fst (fireball_loop E damage radius (target_xy action) (actors s) s False)"
  show ?thesis
  proof (cases "raises_Impossible (activate E c action s)")
    case True
    then show ?thesis
      unfolding FireballDamageConsumable
      by (auto simp add: Fireball_cases consume_not_Impossible split: if_splits)
  next
    case False
    then have "activate E c action s = consume c ?s1"
      unfolding FireballDamageConsumable
      by (auto simp add: Fireball_cases split: if_splits)
    then show ?thesis
      by (intro exI [of _ ?s1]) (simp add: fireball_loop_frame)
  qed
next
  case (LightningDamageConsumable p damage r)
  show ?thesis
  proof (cases "int_plus_1_0 r")
    case (Inl e)
    then have "e = OverflowError"
      by (auto simp add: int_plus_1_0_def float_of_int_def split: if_splits sum.splits)
    with Inl show ?thesis
      unfolding LightningDamageConsumable by (auto simp add: Lightning_cases)
  next
    case (Inr start)
    show ?thesis
    proof (cases "fst (lightning_loop E (entity action) s (actors s) None start)")
      case None
      with Inr show ?thesis
        unfolding LightningDamageConsumable by (auto simp add: Lightning_cases)
    next
      case (Some t)
      with Inr have "activate E c action s = consume c (strike E t damage s)"
        unfolding LightningDamageConsumable by (simp add: Lightning_cases)
      then show ?thesis
        by (intro exI [of _ "strike E t damage s"]) simp
    qed
  qed
qed


lemma activate_inventory_items:
  "inventory_items (final (activate E c action s)) i = inventory_items s i \<or>
   item_parent s (parent c) = ParentInventory i \<and>
   inventory_items (final (activate E c action s)) i = remove1 (parent c) (inventory_items s i)"
proof -
  from activate_outcome [of s E c action] obtain s1 where
    s1: "item_parent s1 = item_parent s" "inventory_items s1 = inventory_items s"
    and r: "activate E c action s = consume c s1 \<or> (\<exists>e. activate E c action s = Inl (e, s1))"
    by blast
  from r show ?thesis
  proof
    assume "activate E c action s = consume c s1"
    with s1 show ?thesis by (simp add: consume_inventory_items)
  next
    assume "\<exists>e. activate E c action s = Inl (e, s1)"
    with s1 show ?thesis by auto
  qed
qed





text \<open>
  Claim C9: \<^verbatim>\<open>consume\<close> and every \<^verbatim>\<open>activate\<close> preserve the invariant that an item
  belongs to at most one inventory. No inventory gains an item, and an inventory other
  than the parent of the consumed item keeps its list.
\<close>

theorem at_most_one_inventory_preserved:
  assumes "at_most_one_inventory s"
  shows "at_most_one_inventory (final (consume c s)) \<and>
         at_most_one_inventory (final (activate E c action s)) \<and>
         (\<forall>i. set (inventory_items (final (activate E c action s)) i)
                 \<subseteq> set (inventory_items s i)) \<and>
         (\<forall>i. item_parent s (parent c) \<noteq> ParentInventory i \<longrightarrow>
               inventory_items (final (activate E c action s)) i = inventory_items s i)"
proof -
  have sub1: "set (inventory_items (final (consume c s)) i) \<subseteq> set (inventory_items s i)" for i
    using set_remove1_subset [of "parent c" "inventory_items s i"]
    by (simp add: consume_inventory_items)
  have sub2: "set (inventory_items (final (activate E c action s)) i)
                 \<subseteq> set (inventory_items s i)" for i
    using activate_inventory_items [of E c action s i]
      set_remove1_subset [of "parent c" "inventory_items s i"]
    by auto
  have same: "inventory_items (final (activate E c action s)) i = inventory_items s i"
    if "item_parent s (parent c) \<noteq> ParentInventory i" for i
    using activate_inventory_items [of E c action s i] that by auto
  from assms sub1 have "at_most_one_inventory (final (consume c s))"
    unfolding at_most_one_inventory_def by blast
  moreover from assms sub2 have "at_most_one_inventory (final (activate E c action s))"
    unfolding at_most_one_inventory_def by blast
  ultimately show ?thesis using sub2 same by blast
qed

theorem at_most_one_inventory_preserved_witness:
  "at_most_one_inventory scene \<and>
   at_most_one_inventory
     (final (activate game_ops (FireballDamageConsumable 2 12 2) (use_item 2 (1, 1)) scene))"
proof -
  have "at_most_one_inventory scene"
    by (auto simp add: at_most_one_inventory_def split: if_splits)
  from at_most_one_inventory_preserved [OF this] this show ?thesis by blast
qed



end
